theory Spec2Isabelle
  imports Main "HOL-Library.Word" "HOL-Library.Sublist"
begin

section \<open>Values shared by the three services\<close>

text \<open>
  JSON documents as the services exchange them. A number with a fraction is an IEEE
  double; no handler of the repository computes with one, so it is carried by its 64-bit
  pattern. An object is given by its members in the order the Python dict holds them;
  Flask's \<open>jsonify\<close> writes the members sorted by key, which changes the text that is
  sent and not the document.
\<close>

datatype json =
    JNull
  | JInt int
  | JReal "64 word"
  | JStr string
  | JArr "json list"
  | JObj "(string \<times> json) list"

text \<open>
  The Python exceptions that can leave a view of the API Service: those of \<open>sqlite3\<close>
  and \<open>TypeError\<close>. None of them is an HTTP exception.
\<close>

datatype py_error =
    OverflowError
  | ProgrammingError
  | OperationalError
  | TypeError

datatype http_method = GET | POST | DELETE

record request =
  verb :: http_method
  path :: string
  query :: "(string \<times> string) list"
  form :: "(string \<times> string) list"
  json_body :: "json option"

text \<open>
  A response is a status code and a body. \<open>Error_page\<close> stands for the page the framework
  itself produces (404, 405, 422, 500); \<open>Redirect\<close> carries the target of a redirect.
\<close>

datatype body = Json json | Redirect string | Error_page

record response =
  status :: nat
  body :: body

text \<open>
  The outcome of URL routing: a view with its converted arguments, or a refusal. With
  \<open>Routing_error\<close> the conversion of a path parameter raised; the request ends in the
  routing layer with status 500.
\<close>

datatype 'v routed = Matched 'v | Not_found | Method_not_allowed | Routing_error

text \<open>
  Werkzeug's \<open>int\<close> converter (\<^verbatim>\<open><int:user_id>\<close>) matches the segment against \<open>\d+\<close> and
  reads it with Python's \<open>int\<close>. The outcome is a value, no match, or an exception of
  \<open>int\<close>. On a segment of 1 to 4300 ASCII digits it is the decimal value, of any size.
  Every other segment is left to the parameter \<open>wide\<close>: \<open>\d\<close> and \<open>int\<close> also accept the
  decimal digits of other scripts, and \<open>int\<close> refuses a string of more digits than its
  limit (4300 by default). The converter has no sign, so a value is never negative.
\<close>

datatype 'a conversion = Value 'a | No_match | Raises

definition is_digit :: "char \<Rightarrow> bool" where
  "is_digit c \<longleftrightarrow> c \<in> set ''0123456789''"

definition digit_value :: "char \<Rightarrow> int" where
  "digit_value c = int (of_char c) - 48"

definition int_converter :: "(string \<Rightarrow> nat conversion) \<Rightarrow> string \<Rightarrow> int conversion" where
  "int_converter wide seg =
     (if seg \<noteq> [] \<and> list_all is_digit seg \<and> length seg \<le> 4300
      then Value (foldl (\<lambda>n c. 10 * n + digit_value c) 0 seg)
      else map_conversion int (wide seg))"

fun strip_prefix :: "string \<Rightarrow> string \<Rightarrow> string option" where
  "strip_prefix [] s = Some s"
| "strip_prefix (p # ps) [] = None"
| "strip_prefix (p # ps) (c # cs) = (if p = c then strip_prefix ps cs else None)"

section \<open>The data store (Flask/app.py, database.db)\<close>

text \<open>
  Modelled from the spec: the schema of \<open>database.db\<close>, which no source file declares.
  Section 6 of the specification gives the two tables and their columns: integer id,
  text name, text email for \<open>users\<close>; integer id, text name, real price for \<open>products\<close>.
  A table is the list of its rows in the order a scan returns them.
\<close>

record user =
  user_id :: int
  user_name :: string
  user_email :: string

record product =
  product_id :: int
  product_name :: string
  product_price :: "64 word"

record database =
  users :: "user list"
  products :: "product list"

datatype sql_value = SInt int | SReal "64 word" | SText string

text \<open>A \<open>sqlite3.Row\<close>: the column names with their values, in column order.\<close>

type_synonym row = "(string \<times> sql_value) list"

definition user_row :: "user \<Rightarrow> row" where
  "user_row u =
     [(''id'', SInt (user_id u)), (''name'', SText (user_name u)),
      (''email'', SText (user_email u))]"

definition product_row :: "product \<Rightarrow> row" where
  "product_row p =
     [(''id'', SInt (product_id p)), (''name'', SText (product_name p)),
      (''price'', SReal (product_price p))]"

subsection \<open>The sqlite3 library as query_db uses it\<close>

text \<open>
  \<open>query_db\<close> calls \<open>cursor.execute\<close> and \<open>cursor.fetchall\<close>; each may raise. The library
  is a parameter of \<open>query_db\<close>: \<open>'p\<close> is the type of the bound parameters and \<open>'c\<close> the
  cursor after execution. Executing a statement may write: \<open>execute\<close> also gives the
  content of the database that the call leaves behind for later connections.
\<close>

record ('p, 'c) dbapi =
  execute :: "database \<Rightarrow> string \<Rightarrow> 'p \<Rightarrow> (py_error + 'c) \<times> database"
  fetchall :: "'c \<Rightarrow> py_error + row list"

text \<open>
  The library on the four statements of app.py, with Python integers as parameters.
  The number of parameters must equal the number of \<open>?\<close> (otherwise
  \<open>ProgrammingError\<close>), and an integer is bound as a signed 64-bit value: outside that
  range the library raises \<open>OverflowError\<close> ("Python int too large to convert to SQLite
  INTEGER"). The four statements are SELECTs: whatever they return, they leave the
  database as it is. What the library does on any other statement text is the parameter
  \<open>other\<close>, which may change the database (through \<open>query_db\<close>, which never commits, a
  \<open>DROP TABLE\<close> takes effect at once, while a \<open>DELETE\<close> is rolled back when the
  connection goes).
\<close>

type_synonym statements =
  "database \<Rightarrow> string \<Rightarrow> int list \<Rightarrow> (py_error + row list) \<times> database"

definition int64 :: "int \<Rightarrow> bool" where
  "int64 i \<longleftrightarrow> - (2 ^ 63) \<le> i \<and> i < 2 ^ 63"

definition select_all :: "row list \<Rightarrow> int list \<Rightarrow> py_error + row list" where
  "select_all table args = (if args = [] then Inr table else Inl ProgrammingError)"

definition select_by_id :: "row list \<Rightarrow> int list \<Rightarrow> py_error + row list" where
  "select_by_id table args =
     (case args of
        [i] \<Rightarrow>
          if int64 i then Inr (filter (\<lambda>r. map_of r ''id'' = Some (SInt i)) table)
          else Inl OverflowError
      | _ \<Rightarrow> Inl ProgrammingError)"

definition sqlite3_execute ::
  "statements \<Rightarrow> database \<Rightarrow> string \<Rightarrow> int list \<Rightarrow> (py_error + row list) \<times> database"
where
  "sqlite3_execute other db sql args =
     (if sql = ''SELECT * FROM users'' then (select_all (map user_row (users db)) args, db)
      else if sql = ''SELECT * FROM users WHERE id = ?''
        then (select_by_id (map user_row (users db)) args, db)
      else if sql = ''SELECT * FROM products''
        then (select_all (map product_row (products db)) args, db)
      else if sql = ''SELECT * FROM products WHERE id = ?''
        then (select_by_id (map product_row (products db)) args, db)
      else other db sql args)"

definition sqlite3 :: "statements \<Rightarrow> (int list, row list) dbapi" where
  "sqlite3 other = \<lparr>execute = sqlite3_execute other, fetchall = Inr\<rparr>"

section \<open>The API Service (Flask/app.py)\<close>

text \<open>
  The state of the API process: the data store and the connections opened so far, each
  with its status (\<open>True\<close> while open). \<open>sqlite3.connect\<close> adds a handle, \<open>conn.close()\<close>
  marks it closed. Opening \<open>database.db\<close> is taken to succeed.
\<close>

record process =
  store :: database
  conns :: "bool list"

definition connect :: "process \<Rightarrow> nat \<times> process" where
  "connect s = (length (conns s), s\<lparr>conns := conns s @ [True]\<rparr>)"

definition close :: "nat \<Rightarrow> process \<Rightarrow> process" where
  "close conn s = s\<lparr>conns := (conns s)[conn := False]\<rparr>"

text \<open>What \<open>query_db\<close> returns: the list of rows, or with \<open>one\<close> a row or \<open>None\<close>.\<close>

datatype query_result = Rows "row list" | Row row | NoRow

text \<open>
  \<^verbatim>\<open>
  def query_db(query, args=(), one=False):
      conn = sqlite3.connect(DB_NAME)
      conn.row_factory = sqlite3.Row
      cur = conn.cursor()
      cur.execute(query, args)
      rows = cur.fetchall()
      conn.close()
      return (rows[0] if rows else None) if one else rows
  \<close>
  An exception of \<open>execute\<close> or \<open>fetchall\<close> leaves the function at that line. The store
  of the process is the database as \<open>execute\<close> left it.
\<close>

definition query_db ::
  "('p, 'c) dbapi \<Rightarrow> string \<Rightarrow> 'p \<Rightarrow> bool \<Rightarrow> process \<Rightarrow> (py_error + query_result) \<times> process"
where
  "query_db lib sql args one s =
     (case connect s of
        (conn, s1) \<Rightarrow>
          (case execute lib (store s1) sql args of
             (Inl e, db) \<Rightarrow> (Inl e, s1\<lparr>store := db\<rparr>)
           | (Inr cur, db) \<Rightarrow>
               (case fetchall lib cur of
                  Inl e \<Rightarrow> (Inl e, s1\<lparr>store := db\<rparr>)
                | Inr rows \<Rightarrow>
                    (Inr (if one then (case rows of [] \<Rightarrow> NoRow | r # _ \<Rightarrow> Row r)
                          else Rows rows),
                     close conn (s1\<lparr>store := db\<rparr>)))))"

subsection \<open>Views\<close>

definition json_of_sql :: "sql_value \<Rightarrow> json" where
  "json_of_sql v = (case v of SInt i \<Rightarrow> JInt i | SReal x \<Rightarrow> JReal x | SText t \<Rightarrow> JStr t)"

text \<open>\<open>dict(row)\<close>: the mapping from column name to value.\<close>

definition dict_row :: "row \<Rightarrow> json" where
  "dict_row r = JObj (map (\<lambda>(k, v). (k, json_of_sql v)) r)"

definition jsonify :: "json \<Rightarrow> response" where
  "jsonify v = \<lparr>status = 200, body = Json v\<rparr>"

definition home :: response where
  "home = jsonify (JObj [(''message'', JStr ''Welcome to the Flask SQLite API'')])"

text \<open>
  \<open>[dict(row) for row in rows]\<close> over the result of \<open>query_db\<close> with \<open>one=False\<close>, which is
  always a list of rows; the other two shapes cannot be iterated into dicts.
\<close>

definition list_response :: "query_result \<Rightarrow> py_error + response" where
  "list_response res =
     (case res of
        Rows rows \<Rightarrow> Inr (jsonify (JArr (map dict_row rows)))
      | _ \<Rightarrow> Inl TypeError)"

text \<open>
  \<open>jsonify(dict(row)) if row else ({"error": msg}, 404)\<close>. A \<open>sqlite3.Row\<close> is true
  when it has a column, \<open>None\<close> is false. With \<open>one=True\<close> the result is never a list.
\<close>

definition one_response :: "string \<Rightarrow> query_result \<Rightarrow> py_error + response" where
  "one_response msg res =
     (case res of
        Row r \<Rightarrow>
          if r \<noteq> [] then Inr (jsonify (dict_row r))
          else Inr \<lparr>status = 404, body = Json (JObj [(''error'', JStr msg)])\<rparr>
      | NoRow \<Rightarrow> Inr \<lparr>status = 404, body = Json (JObj [(''error'', JStr msg)])\<rparr>
      | Rows rows \<Rightarrow>
          if rows = [] then Inr \<lparr>status = 404, body = Json (JObj [(''error'', JStr msg)])\<rparr>
          else Inl TypeError)"

definition get_users ::
  "(int list, 'c) dbapi \<Rightarrow> process \<Rightarrow> (py_error + response) \<times> process"
where
  "get_users lib s =
     (case query_db lib ''SELECT * FROM users'' [] False s of
        (Inl e, s') \<Rightarrow> (Inl e, s')
      | (Inr rows, s') \<Rightarrow> (list_response rows, s'))"

definition get_user ::
  "(int list, 'c) dbapi \<Rightarrow> int \<Rightarrow> process \<Rightarrow> (py_error + response) \<times> process"
where
  "get_user lib uid s =
     (case query_db lib ''SELECT * FROM users WHERE id = ?'' [uid] True s of
        (Inl e, s') \<Rightarrow> (Inl e, s')
      | (Inr row, s') \<Rightarrow> (one_response ''User not found'' row, s'))"

definition get_products ::
  "(int list, 'c) dbapi \<Rightarrow> process \<Rightarrow> (py_error + response) \<times> process"
where
  "get_products lib s =
     (case query_db lib ''SELECT * FROM products'' [] False s of
        (Inl e, s') \<Rightarrow> (Inl e, s')
      | (Inr rows, s') \<Rightarrow> (list_response rows, s'))"

definition get_product ::
  "(int list, 'c) dbapi \<Rightarrow> int \<Rightarrow> process \<Rightarrow> (py_error + response) \<times> process"
where
  "get_product lib pid s =
     (case query_db lib ''SELECT * FROM products WHERE id = ?'' [pid] True s of
        (Inl e, s') \<Rightarrow> (Inl e, s')
      | (Inr row, s') \<Rightarrow> (one_response ''Product not found'' row, s'))"

subsection \<open>Routing and dispatch\<close>

text \<open>
  The five \<open>@app.route\<close> rules of app.py. None names \<open>methods\<close>, so each answers GET
  only; a known path under another method is refused with 405, an unknown path with 404.
  A path that differs from a rule by a trailing or doubled slash counts as unknown: the
  redirect a framework may answer instead runs no view either. The method is checked
  before the parameter is converted.
\<close>

datatype api_view = Home | Get_users | Get_user int | Get_products | Get_product int

definition api_match :: "(string \<Rightarrow> nat conversion) \<Rightarrow> string \<Rightarrow> api_view conversion" where
  "api_match wide p =
     (if p = ''/'' then Value Home
      else if p = ''/users'' then Value Get_users
      else if p = ''/products'' then Value Get_products
      else case strip_prefix ''/users/'' p of
             Some seg \<Rightarrow> map_conversion Get_user (int_converter wide seg)
           | None \<Rightarrow>
               (case strip_prefix ''/products/'' p of
                  Some seg \<Rightarrow> map_conversion Get_product (int_converter wide seg)
                | None \<Rightarrow> No_match))"

definition api_route :: "(string \<Rightarrow> nat conversion) \<Rightarrow> request \<Rightarrow> api_view routed" where
  "api_route wide req =
     (case api_match wide (path req) of
        No_match \<Rightarrow> Not_found
      | Value v \<Rightarrow> if verb req = GET then Matched v else Method_not_allowed
      | Raises \<Rightarrow> if verb req = GET then Routing_error else Method_not_allowed)"

definition api_view ::
  "(int list, 'c) dbapi \<Rightarrow> api_view \<Rightarrow> process \<Rightarrow> (py_error + response) \<times> process"
where
  "api_view lib v s =
     (case v of
        Home \<Rightarrow> (Inr home, s)
      | Get_users \<Rightarrow> get_users lib s
      | Get_user uid \<Rightarrow> get_user lib uid s
      | Get_products \<Rightarrow> get_products lib s
      | Get_product pid \<Rightarrow> get_product lib pid s)"

text \<open>
  Flask around a view of the API Service: an exception that leaves the view, none of
  which is an HTTP exception, becomes a 500 response (in debug mode too).
\<close>

definition flask_response :: "py_error + response \<Rightarrow> response" where
  "flask_response r =
     (case r of
        Inr resp \<Rightarrow> resp
      | Inl e \<Rightarrow> \<lparr>status = 500, body = Error_page\<rparr>)"

definition api_app ::
  "(int list, 'c) dbapi \<Rightarrow> (string \<Rightarrow> nat conversion) \<Rightarrow> request \<Rightarrow> process \<Rightarrow> response \<times> process"
where
  "api_app lib wide req s =
     (case api_route wide req of
        Not_found \<Rightarrow> (\<lparr>status = 404, body = Error_page\<rparr>, s)
      | Method_not_allowed \<Rightarrow> (\<lparr>status = 405, body = Error_page\<rparr>, s)
      | Routing_error \<Rightarrow> (\<lparr>status = 500, body = Error_page\<rparr>, s)
      | Matched v \<Rightarrow> (case api_view lib v s of (r, s') \<Rightarrow> (flask_response r, s')))"

text \<open>The API Service handling a sequence of requests, one after the other.\<close>

fun run_api ::
  "(int list, 'c) dbapi \<Rightarrow> (string \<Rightarrow> nat conversion) \<Rightarrow> request list \<Rightarrow> process \<Rightarrow>
     response list \<times> process"
where
  "run_api lib wide [] s = ([], s)"
| "run_api lib wide (r # rs) s =
     (case api_app lib wide r s of
        (resp, s') \<Rightarrow>
          (case run_api lib wide rs s' of (resps, s'') \<Rightarrow> (resp # resps, s'')))"

section \<open>The Client Service (Flask/client.py)\<close>

text \<open>
  The client forwards to the API Service at \<open>API_URL\<close> with the \<open>requests\<close> library. Its
  world is the API process it talks to and the log of the requests it has sent. A call of
  \<open>requests.get\<close>, \<open>requests.post\<close> or \<open>requests.delete\<close> is one request handled by the
  API Service (taken to be reachable); \<open>requests\<close> returns the response whatever its
  status, it does not raise on 4xx or 5xx.
\<close>

record net =
  api :: process
  sent :: "request list"

definition requests_send ::
  "(int list, 'c) dbapi \<Rightarrow> (string \<Rightarrow> nat conversion) \<Rightarrow> request \<Rightarrow> net \<Rightarrow> response \<times> net"
where
  "requests_send lib wide req n =
     (case api_app lib wide req (api n) of
        (r, s') \<Rightarrow> (r, n\<lparr>api := s', sent := sent n @ [req]\<rparr>))"

text \<open>\<open>redirect(url_for(view))\<close>: a 302 response to the path of the view.\<close>

definition redirect :: "string \<Rightarrow> response" where
  "redirect target = \<lparr>status = 302, body = Redirect target\<rparr>"

text \<open>
  The exceptions that can leave the two add views. Which status Flask answers for them
  depends on how the client is run (a \<open>BadRequestKeyError\<close> is a 400 response, but in debug
  mode, as under \<open>app.run(port=6000, debug=True)\<close>, it is trapped and answered like any
  unhandled exception); the model stops at the exception.
\<close>

datatype client_error = BadRequestKeyError string | ValueError | InvalidJSONError

text \<open>
  \<open>request.form[key]\<close>: the first value submitted under the key; a missing key raises
  \<open>BadRequestKeyError\<close> inside the view.
\<close>

definition form_get :: "request \<Rightarrow> string \<Rightarrow> client_error + string" where
  "form_get req k =
     (case map_of (form req) k of
        None \<Rightarrow> Inl (BadRequestKeyError k)
      | Some v \<Rightarrow> Inr v)"

text \<open>
  \<^verbatim>\<open>
  def add_user():
      name = request.form["name"]
      email = request.form["email"]
      requests.post(f"{API_URL}/users", json={"name": name, "email": email})
      return redirect(url_for("show_users"))
  \<close>
\<close>

definition add_user ::
  "(int list, 'c) dbapi \<Rightarrow> (string \<Rightarrow> nat conversion) \<Rightarrow> request \<Rightarrow> net \<Rightarrow>
     (client_error + response) \<times> net"
where
  "add_user lib wide req n =
     (case form_get req ''name'' of
        Inl e \<Rightarrow> (Inl e, n)
      | Inr name \<Rightarrow>
          (case form_get req ''email'' of
             Inl e \<Rightarrow> (Inl e, n)
           | Inr email \<Rightarrow>
               (case requests_send lib wide
                       \<lparr>verb = POST, path = ''/users'', query = [], form = [],
                        json_body = Some (JObj [(''name'', JStr name), (''email'', JStr email)])\<rparr>
                       n of
                  (r, n') \<Rightarrow> (Inr (redirect ''/users''), n'))))"






section \<open>The Demo Service (FastAPI/main.py)\<close>

text \<open>
  The Python values the three views return. A set is given by its elements in iteration
  order. FastAPI passes a returned value through \<open>jsonable_encoder\<close>: a dict becomes a
  JSON object, and a set, like a list, a JSON array.
\<close>

datatype pyval = PStr string | PDict "(string \<times> pyval) list" | PSet "pyval list"

fun jsonable_encoder :: "pyval \<Rightarrow> json" where
  "jsonable_encoder (PStr s) = JStr s"
| "jsonable_encoder (PDict kvs) = JObj (map (\<lambda>kv. (fst kv, jsonable_encoder (snd kv))) kvs)"
| "jsonable_encoder (PSet xs) = JArr (map jsonable_encoder xs)"

definition root :: pyval where
  "root = PDict [(''hello'', PStr ''world'')]"

definition about :: pyval where
  "about = PSet [PStr ''About Page'']"

text \<open>
  \<^verbatim>\<open>
  items = []

  def create_item(item: str):
      items.append(item)
      return item
  \<close>
  The module-level list is the state of the process.
\<close>

definition create_item :: "string \<Rightarrow> string list \<Rightarrow> string \<times> string list" where
  "create_item item items = (item, items @ [item])"

text \<open>
  The three routes of main.py. What FastAPI answers on its own (its documentation routes,
  the redirect for a path that differs from a route by a trailing slash) touches no state
  of the service; such paths count as unknown here.
\<close>

datatype demo_view = Root | About | Create_item

definition demo_match :: "string \<Rightarrow> (demo_view \<times> http_method) option" where
  "demo_match p =
     (if p = ''/'' then Some (Root, GET)
      else if p = ''/about'' then Some (About, GET)
      else if p = ''/items'' then Some (Create_item, POST)
      else None)"

definition demo_route :: "request \<Rightarrow> demo_view routed" where
  "demo_route req =
     (case demo_match (path req) of
        None \<Rightarrow> Not_found
      | Some (v, m) \<Rightarrow> if verb req = m then Matched v else Method_not_allowed)"

text \<open>
  \<open>item: str\<close> is a required query parameter: FastAPI takes the last value given under
  the name, and answers 422 without calling the view when there is none.
\<close>

definition demo_app :: "request \<Rightarrow> string list \<Rightarrow> response \<times> string list" where
  "demo_app req items =
     (case demo_route req of
        Not_found \<Rightarrow> (\<lparr>status = 404, body = Error_page\<rparr>, items)
      | Method_not_allowed \<Rightarrow> (\<lparr>status = 405, body = Error_page\<rparr>, items)
      | Routing_error \<Rightarrow> (\<lparr>status = 500, body = Error_page\<rparr>, items)
      | Matched Root \<Rightarrow> (\<lparr>status = 200, body = Json (jsonable_encoder root)\<rparr>, items)
      | Matched About \<Rightarrow> (\<lparr>status = 200, body = Json (jsonable_encoder about)\<rparr>, items)
      | Matched Create_item \<Rightarrow>
          (case map_of (rev (query req)) ''item'' of
             None \<Rightarrow> (\<lparr>status = 422, body = Error_page\<rparr>, items)
           | Some item \<Rightarrow>
               (case create_item item items of
                  (r, items') \<Rightarrow>
                    (\<lparr>status = 200, body = Json (jsonable_encoder (PStr r))\<rparr>, items'))))"

text \<open>The Demo Service handling a sequence of requests, one after the other.\<close>

fun run_demo :: "request list \<Rightarrow> string list \<Rightarrow> response list \<times> string list" where
  "run_demo [] items = ([], items)"
| "run_demo (r # rs) items =
     (case demo_app r items of
        (resp, items') \<Rightarrow>
          (case run_demo rs items' of (resps, items'') \<Rightarrow> (resp # resps, items'')))"

text \<open>
  The strings that the create-item calls among a sequence of requests hand to
  \<open>create_item\<close>, in the order the requests are handled.
\<close>

definition created_items :: "request list \<Rightarrow> string list" where
  "created_items reqs =
     concat (map (\<lambda>r. case demo_route r of
                        Matched Create_item \<Rightarrow>
                          (case map_of (rev (query r)) ''item'' of
                             Some item \<Rightarrow> [item]
                           | None \<Rightarrow> [])
                      | _ \<Rightarrow> []) reqs)"

section \<open>Instances of the parameters\<close>

text \<open>
  For statements at concrete inputs: a library that refuses every statement other than the
  four of app.py, and a converter that matches segments of ASCII digits only.
\<close>

definition refuse_other :: statements where
  "refuse_other db sql args = (Inl OperationalError, db)"

definition ascii_only :: "string \<Rightarrow> nat conversion" where
  "ascii_only seg = No_match"

section \<open>Properties\<close>

subsection \<open>Routing and the library model\<close>

lemma digit_value_nonneg: "is_digit c \<Longrightarrow> 0 \<le> digit_value c"
  by (auto simp: is_digit_def digit_value_def)

lemma foldl_digits_nonneg:
  "list_all is_digit seg \<Longrightarrow> 0 \<le> a \<Longrightarrow> 0 \<le> foldl (\<lambda>n c. 10 * n + digit_value c) a seg"
proof (induction seg arbitrary: a)
  case Nil
  then show ?case by simp
next
  case (Cons c cs)
  from Cons.prems have "0 \<le> 10 * a + digit_value c"
    using digit_value_nonneg [of c] by simp
  with Cons show ?case by simp
qed

lemma int_converter_nonneg: "int_converter wide seg = Value i \<Longrightarrow> 0 \<le> i"
  by (cases "wide seg") (auto simp: int_converter_def foldl_digits_nonneg split: if_splits)

subsection \<open>query_db\<close>

text \<open>
  The store after a call of \<open>query_db\<close> is what \<open>execute\<close> left. For a statement other than
  the four of app.py that is whatever the library does on it.
\<close>

lemma query_db_store:
  "store (snd (query_db lib sql args one s)) = snd (execute lib (store s) sql args)"
  by (simp add: query_db_def connect_def close_def split: prod.splits sum.splits)

lemma sqlite3_other_statement:
  "sql \<notin> {''SELECT * FROM users'', ''SELECT * FROM users WHERE id = ?'',
            ''SELECT * FROM products'', ''SELECT * FROM products WHERE id = ?''} \<Longrightarrow>
   store (snd (query_db (sqlite3 other) sql args one s)) = snd (other (store s) sql args)"
  by (simp add: query_db_store sqlite3_def sqlite3_execute_def)

lemma query_db_closes_on_return:
  "query_db lib sql args one s = (Inr r, s') \<Longrightarrow> conns s' = conns s @ [False]"
  by (auto simp: query_db_def connect_def close_def split: prod.splits sum.splits)

lemma query_db_leaks_on_error:
  "query_db lib sql args one s = (Inl e, s') \<Longrightarrow> conns s' = conns s @ [True]"
  by (auto simp: query_db_def connect_def close_def split: prod.splits sum.splits)

lemma filter_id_rows:
  "filter (\<lambda>r. map_of r ''id'' = Some (SInt i)) (map user_row us) =
     map user_row (filter (\<lambda>u. user_id u = i) us)"
  by (induction us) (simp_all add: user_row_def)

lemma filter_id_product_rows:
  "filter (\<lambda>r. map_of r ''id'' = Some (SInt i)) (map product_row ps) =
     map product_row (filter (\<lambda>p. product_id p = i) ps)"
  by (induction ps) (simp_all add: product_row_def)

lemma query_db_select_users:
  "query_db (sqlite3 other) ''SELECT * FROM users'' [] False s =
     (Inr (Rows (map user_row (users (store s)))), s\<lparr>conns := conns s @ [False]\<rparr>)"
  by (simp add: query_db_def connect_def close_def sqlite3_def sqlite3_execute_def select_all_def)

lemma query_db_select_products:
  "query_db (sqlite3 other) ''SELECT * FROM products'' [] False s =
     (Inr (Rows (map product_row (products (store s)))), s\<lparr>conns := conns s @ [False]\<rparr>)"
  by (simp add: query_db_def connect_def close_def sqlite3_def sqlite3_execute_def select_all_def)

lemma query_db_user_by_id:
  "int64 i \<Longrightarrow>
   query_db (sqlite3 other) ''SELECT * FROM users WHERE id = ?'' [i] True s =
     (Inr (case filter (\<lambda>u. user_id u = i) (users (store s)) of
             [] \<Rightarrow> NoRow | u # _ \<Rightarrow> Row (user_row u)),
      s\<lparr>conns := conns s @ [False]\<rparr>)"
  by (simp add: query_db_def connect_def close_def sqlite3_def sqlite3_execute_def
      select_by_id_def filter_id_rows split: list.splits)

lemma query_db_product_by_id:
  "int64 i \<Longrightarrow>
   query_db (sqlite3 other) ''SELECT * FROM products WHERE id = ?'' [i] True s =
     (Inr (case filter (\<lambda>p. product_id p = i) (products (store s)) of
             [] \<Rightarrow> NoRow | p # _ \<Rightarrow> Row (product_row p)),
      s\<lparr>conns := conns s @ [False]\<rparr>)"
  by (simp add: query_db_def connect_def close_def sqlite3_def sqlite3_execute_def
      select_by_id_def filter_id_product_rows split: list.splits)

subsection \<open>Fetching one row\<close>

lemma filter_unique:
  "distinct (map f xs) \<Longrightarrow> x \<in> set xs \<Longrightarrow> filter (\<lambda>y. f y = f x) xs = [x]"
proof (induction xs)
  case Nil
  then show ?case by simp
next
  case (Cons y ys)
  show ?case
  proof (cases "y = x")
    case True
    with Cons.prems have "f x \<notin> f ` set ys" by simp
    then have "\<forall>z\<in>set ys. f z \<noteq> f x" by (metis imageI)
    then have "filter (\<lambda>y. f y = f x) ys = []" by (simp add: filter_empty_conv)
    with True show ?thesis by simp
  next
    case False
    with Cons.prems have "x \<in> set ys" by simp
    with Cons.prems have "f y \<noteq> f x" by auto
    with Cons \<open>x \<in> set ys\<close> show ?thesis by simp
  qed
qed

lemma get_user_found:
  assumes "int64 (user_id u)" "u \<in> set (users (store s))" "distinct (map user_id (users (store s)))"
  shows "fst (get_user (sqlite3 other) (user_id u) s) = Inr \<lparr>status = 200, body = Json (JObj [(''id'', JInt (user_id u)), (''name'', JStr (user_name u)), (''email'', JStr (user_email u))])\<rparr>"
  using assms
  by (simp add: get_user_def query_db_user_by_id filter_unique one_response_def user_row_def
        jsonify_def dict_row_def json_of_sql_def)

lemma get_user_absent:
  assumes "int64 i" "\<forall>u\<in>set (users (store s)). user_id u \<noteq> i"
  shows "fst (get_user (sqlite3 other) i s) = Inr \<lparr>status = 404, body = Json (JObj [(''error'', JStr ''User not found'')])\<rparr>"
proof -
  from assms(2) have "filter (\<lambda>u. user_id u = i) (users (store s)) = []"
    by (simp add: filter_empty_conv)
  with assms(1) show ?thesis
    by (simp add: get_user_def query_db_user_by_id one_response_def)
qed

lemma get_product_found:
  assumes "int64 (product_id p)" "p \<in> set (products (store s))" "distinct (map product_id (products (store s)))"
  shows "fst (get_product (sqlite3 other) (product_id p) s) = Inr \<lparr>status = 200, body = Json (JObj [(''id'', JInt (product_id p)), (''name'', JStr (product_name p)), (''price'', JReal (product_price p))])\<rparr>"
  using assms
  by (simp add: get_product_def query_db_product_by_id filter_unique one_response_def product_row_def
        jsonify_def dict_row_def json_of_sql_def)

lemma get_product_absent:
  assumes "int64 i" "\<forall>p\<in>set (products (store s)). product_id p \<noteq> i"
  shows "fst (get_product (sqlite3 other) i s) = Inr \<lparr>status = 404, body = Json (JObj [(''error'', JStr ''Product not found'')])\<rparr>"
proof -
  from assms(2) have "filter (\<lambda>p. product_id p = i) (products (store s)) = []"
    by (simp add: filter_empty_conv)
  with assms(1) show ?thesis
    by (simp add: get_product_def query_db_product_by_id one_response_def)
qed

lemma api_route_user:
  "verb req = GET \<Longrightarrow> path req = ''/users/'' @ seg \<Longrightarrow> int_converter wide seg = Value i \<Longrightarrow>
   api_route wide req = Matched (Get_user i)"
  by (simp add: api_route_def api_match_def)

lemma api_route_product:
  "verb req = GET \<Longrightarrow> path req = ''/products/'' @ seg \<Longrightarrow> int_converter wide seg = Value i \<Longrightarrow>
   api_route wide req = Matched (Get_product i)"
  by (simp add: api_route_def api_match_def)

lemma api_app_view:
  "api_route wide req = Matched v \<Longrightarrow>
   fst (api_app lib wide req s) = flask_response (fst (api_view lib v s))"
  by (simp add: api_app_def split: prod.splits)

subsection \<open>The data store is only read\<close>

lemma api_view_store: "store (snd (api_view (sqlite3 other) v s)) = store s"
proof (cases v)
  case Home
  then show ?thesis by (simp add: api_view_def)
next
  case Get_users
  then show ?thesis
    using query_db_store [of "sqlite3 other" "''SELECT * FROM users''" "[]" False s]
    by (auto simp: api_view_def get_users_def sqlite3_def sqlite3_execute_def
        split: prod.splits sum.splits)
next
  case (Get_user i)
  then show ?thesis
    using query_db_store [of "sqlite3 other" "''SELECT * FROM users WHERE id = ?''" "[i]" True s]
    by (auto simp: api_view_def get_user_def sqlite3_def sqlite3_execute_def
        split: prod.splits sum.splits)
next
  case Get_products
  then show ?thesis
    using query_db_store [of "sqlite3 other" "''SELECT * FROM products''" "[]" False s]
    by (auto simp: api_view_def get_products_def sqlite3_def sqlite3_execute_def
        split: prod.splits sum.splits)
next
  case (Get_product i)
  then show ?thesis
    using query_db_store [of "sqlite3 other" "''SELECT * FROM products WHERE id = ?''" "[i]" True s]
    by (auto simp: api_view_def get_product_def sqlite3_def sqlite3_execute_def
        split: prod.splits sum.splits)
qed

lemma api_app_store: "store (snd (api_app (sqlite3 other) wide req s)) = store s"
proof (cases "api_route wide req")
  case (Matched v)
  then show ?thesis
    using api_view_store [of other v s] by (auto simp: api_app_def split: prod.splits)
next
  case Not_found
  then show ?thesis by (simp add: api_app_def)
next
  case Method_not_allowed
  then show ?thesis by (simp add: api_app_def)
next
  case Routing_error
  then show ?thesis by (simp add: api_app_def)
qed

lemma run_api_store: "store (snd (run_api (sqlite3 other) wide reqs s)) = store s"
proof (induction reqs arbitrary: s)
  case Nil
  then show ?case by simp
next
  case (Cons r rs)
  obtain resp s' where a: "api_app (sqlite3 other) wide r s = (resp, s')"
    by (cases "api_app (sqlite3 other) wide r s")
  then have "store s' = store s" using api_app_store [of other wide r s] by simp
  with Cons [of s'] a show ?case by (auto split: prod.splits)
qed

text \<open>
  Claim C6. No request to the API Service changes the data store: after any request, and
  after any sequence of requests, the \<open>users\<close> and \<open>products\<close> tables are what they were
  before. In particular the row identifiers stay the same, in the same order, and they are
  unique afterwards exactly when they were unique before. This holds whatever the library
  does on other statements, also when they write: every view issues one of the four
  SELECT statements and nothing else.
\<close>

theorem api_service_is_read_only:
  "store (snd (api_app (sqlite3 other) wide req s)) = store s \<and>
   store (snd (run_api (sqlite3 other) wide reqs s)) = store s \<and>
   map user_id (users (store (snd (run_api (sqlite3 other) wide reqs s)))) =
     map user_id (users (store s)) \<and>
   map product_id (products (store (snd (run_api (sqlite3 other) wide reqs s)))) =
     map product_id (products (store s)) \<and>
   distinct (map user_id (users (store (snd (run_api (sqlite3 other) wide reqs s))))) =
     distinct (map user_id (users (store s))) \<and>
   distinct (map product_id (products (store (snd (run_api (sqlite3 other) wide reqs s))))) =
     distinct (map product_id (products (store s)))"
  by (simp add: api_app_store run_api_store)


text \<open>
  Claim C5. For every state of the \<open>users\<close> table, \<open>GET /users\<close> answers 200 with a JSON
  array that has as many elements as the table has rows; the element at each position is
  the mapping of the fields (id, name, email) of the stored row at that position.
\<close>

theorem get_users_lists_every_row:
  "\<exists>items.
     fst (api_app (sqlite3 other) wide
            \<lparr>verb = GET, path = ''/users'', query = q, form = f, json_body = b\<rparr> s) =
       \<lparr>status = 200, body = Json (JArr items)\<rparr> \<and>
     length items = length (users (store s)) \<and>
     items =
       map (\<lambda>u. JObj [(''id'', JInt (user_id u)), (''name'', JStr (user_name u)),
                       (''email'', JStr (user_email u))])
         (users (store s))"
  by (simp add: api_app_def api_route_def api_match_def api_view_def get_users_def
      query_db_select_users list_response_def jsonify_def flask_response_def dict_row_def
      user_row_def json_of_sql_def)



subsection \<open>Fetching by id over HTTP\<close>

lemma int64_of_path_id: "int_converter wide seg = Value i \<Longrightarrow> i < 2 ^ 63 \<Longrightarrow> int64 i"
  using int_converter_nonneg [of wide seg i] by (simp add: int64_def)

text \<open>
  Claim C2, as amended. For every id that the route accepts and that is below \<open>2 ^ 63\<close>, so
  that sqlite3 can bind it: \<open>GET /users/{id}\<close> answers 200 with exactly the fields (id,
  name, email) of the stored row that has this id, and it answers 404 with the payload
  \<open>{"error": "User not found"}\<close> when no row has it; the same for \<open>GET /products/{id}\<close>
  with the fields (id, name, price) and the payload \<open>{"error": "Product not found"}\<close>. Row
  identifiers are unique (the primary key).
\<close>

theorem fetch_by_id_dichotomy:
  assumes "int_converter wide seg = Value i" and "i < 2 ^ 63"
    and "distinct (map user_id (users (store s)))"
    and "distinct (map product_id (products (store s)))"
  shows
    "(\<forall>u\<in>set (users (store s)). user_id u = i \<longrightarrow>
        fst (api_app (sqlite3 other) wide
               \<lparr>verb = GET, path = ''/users/'' @ seg, query = q, form = f, json_body = b\<rparr> s) =
          \<lparr>status = 200,
           body = Json (JObj [(''id'', JInt (user_id u)), (''name'', JStr (user_name u)),
                              (''email'', JStr (user_email u))])\<rparr>) \<and>
     ((\<forall>u\<in>set (users (store s)). user_id u \<noteq> i) \<longrightarrow>
        fst (api_app (sqlite3 other) wide
               \<lparr>verb = GET, path = ''/users/'' @ seg, query = q, form = f, json_body = b\<rparr> s) =
          \<lparr>status = 404, body = Json (JObj [(''error'', JStr ''User not found'')])\<rparr>) \<and>
     (\<forall>p\<in>set (products (store s)). product_id p = i \<longrightarrow>
        fst (api_app (sqlite3 other) wide
               \<lparr>verb = GET, path = ''/products/'' @ seg, query = q, form = f, json_body = b\<rparr>
               s) =
          \<lparr>status = 200,
           body = Json (JObj [(''id'', JInt (product_id p)), (''name'', JStr (product_name p)),
                              (''price'', JReal (product_price p))])\<rparr>) \<and>
     ((\<forall>p\<in>set (products (store s)). product_id p \<noteq> i) \<longrightarrow>
        fst (api_app (sqlite3 other) wide
               \<lparr>verb = GET, path = ''/products/'' @ seg, query = q, form = f, json_body = b\<rparr>
               s) =
          \<lparr>status = 404, body = Json (JObj [(''error'', JStr ''Product not found'')])\<rparr>)"
proof -
  let ?ru = "\<lparr>verb = GET, path = ''/users/'' @ seg, query = q, form = f, json_body = b\<rparr>"
  let ?rp = "\<lparr>verb = GET, path = ''/products/'' @ seg, query = q, form = f, json_body = b\<rparr>"
  let ?lib = "sqlite3 other"
  from assms(1,2) have r: "int64 i" by (rule int64_of_path_id)
  have u: "fst (api_app ?lib wide ?ru s) = flask_response (fst (get_user ?lib i s))"
    using api_route_user [of ?ru seg wide i] assms(1)
    by (simp add: api_app_view api_view_def)
  have p: "fst (api_app ?lib wide ?rp s) = flask_response (fst (get_product ?lib i s))"
    using api_route_product [of ?rp seg wide i] assms(1)
    by (simp add: api_app_view api_view_def)
  have "fst (api_app ?lib wide ?ru s) =
          \<lparr>status = 200,
           body = Json (JObj [(''id'', JInt (user_id x)), (''name'', JStr (user_name x)),
                              (''email'', JStr (user_email x))])\<rparr>"
    if "x \<in> set (users (store s))" and "user_id x = i" for x
    using get_user_found [of x s other] that r assms(3) u by (simp add: flask_response_def)
  moreover have "fst (api_app ?lib wide ?ru s) =
          \<lparr>status = 404, body = Json (JObj [(''error'', JStr ''User not found'')])\<rparr>"
    if "\<forall>u\<in>set (users (store s)). user_id u \<noteq> i"
    using get_user_absent [of i s other] that r u by (simp add: flask_response_def)
  moreover have "fst (api_app ?lib wide ?rp s) =
          \<lparr>status = 200,
           body = Json (JObj [(''id'', JInt (product_id x)), (''name'', JStr (product_name x)),
                              (''price'', JReal (product_price x))])\<rparr>"
    if "x \<in> set (products (store s))" and "product_id x = i" for x
    using get_product_found [of x s other] that r assms(4) p by (simp add: flask_response_def)
  moreover have "fst (api_app ?lib wide ?rp s) =
          \<lparr>status = 404, body = Json (JObj [(''error'', JStr ''Product not found'')])\<rparr>"
    if "\<forall>p\<in>set (products (store s)). product_id p \<noteq> i"
    using get_product_absent [of i s other] that r p by (simp add: flask_response_def)
  ultimately show ?thesis by blast
qed

text \<open>
  The theorem of C2 at id 2 in a store with users 1 and 2 and product 7: the user is
  found, the product is not.
\<close>

theorem fetch_by_id_dichotomy_witness:
  "fst (api_app (sqlite3 refuse_other) ascii_only
          \<lparr>verb = GET, path = ''/users/2'', query = [], form = [], json_body = None\<rparr>
          \<lparr>store = \<lparr>users = [\<lparr>user_id = 1, user_name = ''Ann'', user_email = ''ann@x.com''\<rparr>,
                              \<lparr>user_id = 2, user_name = ''Bob'', user_email = ''bob@x.com''\<rparr>],
                     products = [\<lparr>product_id = 7, product_name = ''pen'', product_price = 0\<rparr>]\<rparr>,
           conns = []\<rparr>) =
     \<lparr>status = 200,
      body = Json (JObj [(''id'', JInt 2), (''name'', JStr ''Bob''),
                         (''email'', JStr ''bob@x.com'')])\<rparr> \<and>
   fst (api_app (sqlite3 refuse_other) ascii_only
          \<lparr>verb = GET, path = ''/products/2'', query = [], form = [], json_body = None\<rparr>
          \<lparr>store = \<lparr>users = [\<lparr>user_id = 1, user_name = ''Ann'', user_email = ''ann@x.com''\<rparr>,
                              \<lparr>user_id = 2, user_name = ''Bob'', user_email = ''bob@x.com''\<rparr>],
                     products = [\<lparr>product_id = 7, product_name = ''pen'', product_price = 0\<rparr>]\<rparr>,
           conns = []\<rparr>) =
     \<lparr>status = 404, body = Json (JObj [(''error'', JStr ''Product not found'')])\<rparr>"
  using fetch_by_id_dichotomy
    [of ascii_only "''2''" 2
      "\<lparr>store = \<lparr>users = [\<lparr>user_id = 1, user_name = ''Ann'', user_email = ''ann@x.com''\<rparr>,
                          \<lparr>user_id = 2, user_name = ''Bob'', user_email = ''bob@x.com''\<rparr>],
                 products = [\<lparr>product_id = 7, product_name = ''pen'', product_price = 0\<rparr>]\<rparr>,
        conns = []\<rparr>" refuse_other "[]" "[]" None]
  by (simp add: int_converter_def is_digit_def digit_value_def)

text \<open>
  Claim C2 as stated ("for every integer id") fails. The route accepts the id
  \<open>9223372036854775808 = 2 ^ 63\<close>; no row has it (the tables are empty); binding it makes
  \<open>cur.execute\<close> raise \<open>OverflowError\<close>, which leaves \<open>get_user\<close> unhandled, and Flask answers
  500 instead of the 404 payload. \<open>GET /products/{id}\<close> does the same.
\<close>

theorem fetch_by_id_overflow_counterexample:
  "int_converter ascii_only ''9223372036854775808'' = Value 9223372036854775808 \<and>
   users (store \<lparr>store = \<lparr>users = [], products = []\<rparr>, conns = []\<rparr>) = [] \<and>
   fst (api_app (sqlite3 refuse_other) ascii_only
          \<lparr>verb = GET, path = ''/users/9223372036854775808'', query = [], form = [],
           json_body = None\<rparr>
          \<lparr>store = \<lparr>users = [], products = []\<rparr>, conns = []\<rparr>) =
     \<lparr>status = 500, body = Error_page\<rparr> \<and>
   fst (get_user (sqlite3 refuse_other) 9223372036854775808
          \<lparr>store = \<lparr>users = [], products = []\<rparr>, conns = []\<rparr>) =
     Inl OverflowError \<and>
   fst (api_app (sqlite3 refuse_other) ascii_only
          \<lparr>verb = GET, path = ''/products/9223372036854775808'', query = [], form = [],
           json_body = None\<rparr>
          \<lparr>store = \<lparr>users = [], products = []\<rparr>, conns = []\<rparr>) =
     \<lparr>status = 500, body = Error_page\<rparr>"
  by (simp add: api_app_def api_route_def api_match_def int_converter_def is_digit_def
      digit_value_def api_view_def get_user_def get_product_def query_db_def connect_def close_def
      sqlite3_def sqlite3_execute_def select_by_id_def int64_def flask_response_def)

text \<open>
  Claim C3 says the connection that \<open>query_db\<close> opens is closed on every exit path. The
  code closes it on the normal path only (\<open>query_db_closes_on_return\<close>); when
  \<open>cur.execute\<close> or \<open>cur.fetchall\<close> raises, \<open>conn.close()\<close> is never reached
  (\<open>query_db_leaks_on_error\<close>). The call that \<open>get_user\<close> makes for the request
  \<open>GET /users/9223372036854775808\<close> is such a call: binding the id raises
  \<open>OverflowError\<close>, and the connection opened by the call is still open when the exception
  leaves \<open>query_db\<close>.
\<close>

theorem query_db_error_leaves_connection_open:
  "query_db (sqlite3 other) ''SELECT * FROM users WHERE id = ?'' [9223372036854775808] True
     \<lparr>store = \<lparr>users = [], products = []\<rparr>, conns = []\<rparr> =
     (Inl OverflowError, \<lparr>store = \<lparr>users = [], products = []\<rparr>, conns = [True]\<rparr>)"
  by (simp add: query_db_def connect_def sqlite3_def sqlite3_execute_def select_by_id_def
      int64_def)


subsection \<open>The client's add form\<close>

lemma requests_send_store:
  "store (api (snd (requests_send (sqlite3 other) wide req n))) = store (api n)"
  using api_app_store [of other wide req "api n"]
  by (auto simp: requests_send_def split: prod.splits)

lemma add_user_store:
  "store (api (snd (add_user (sqlite3 other) wide req n))) = store (api n)"
proof -
  have "snd (case p of (x, n') \<Rightarrow> (c, n')) = snd p"
    for p :: "response \<times> net" and c :: "client_error + response"
    by (cases p) simp
  then show ?thesis
    by (simp add: add_user_def requests_send_store split: sum.splits)
qed

text \<open>
  Claim C1 says that a user submitted through the client's add form is in the listing of
  the API Service afterwards. The code does not do that. \<open>add_user\<close> forwards
  \<open>POST /users\<close>; app.py registers \<open>/users\<close> for GET only, so the API Service answers 405 and
  runs no view; \<open>requests.post\<close> returns that response, \<open>add_user\<close> ignores it and
  redirects. Submitting Ann with ann@x.com against an empty table, \<open>GET /users\<close> afterwards
  still returns the empty array.
\<close>

theorem add_user_then_list_omits_new_user:
  "add_user (sqlite3 other) wide
     \<lparr>verb = POST, path = ''/users/add'', query = [],
      form = [(''name'', ''Ann''), (''email'', ''ann@x.com'')], json_body = None\<rparr>
     \<lparr>api = \<lparr>store = \<lparr>users = [], products = []\<rparr>, conns = []\<rparr>, sent = []\<rparr> =
     (Inr \<lparr>status = 302, body = Redirect ''/users''\<rparr>,
      \<lparr>api = \<lparr>store = \<lparr>users = [], products = []\<rparr>, conns = []\<rparr>,
       sent = [\<lparr>verb = POST, path = ''/users'', query = [], form = [],
                json_body = Some (JObj [(''name'', JStr ''Ann''),
                                        (''email'', JStr ''ann@x.com'')])\<rparr>]\<rparr>) \<and>
   fst (api_app (sqlite3 other) wide
          \<lparr>verb = POST, path = ''/users'', query = [], form = [],
           json_body = Some (JObj [(''name'', JStr ''Ann''), (''email'', JStr ''ann@x.com'')])\<rparr>
          \<lparr>store = \<lparr>users = [], products = []\<rparr>, conns = []\<rparr>) =
     \<lparr>status = 405, body = Error_page\<rparr> \<and>
   fst (api_app (sqlite3 other) wide
          \<lparr>verb = GET, path = ''/users'', query = [], form = [], json_body = None\<rparr>
          (api (snd (add_user (sqlite3 other) wide
             \<lparr>verb = POST, path = ''/users/add'', query = [],
              form = [(''name'', ''Ann''), (''email'', ''ann@x.com'')], json_body = None\<rparr>
             \<lparr>api = \<lparr>store = \<lparr>users = [], products = []\<rparr>, conns = []\<rparr>, sent = []\<rparr>)))) =
     \<lparr>status = 200, body = Json (JArr [])\<rparr>"
  by (simp add: add_user_def form_get_def requests_send_def redirect_def api_app_def
      api_route_def api_match_def api_view_def get_users_def query_db_def connect_def close_def
      sqlite3_def sqlite3_execute_def select_all_def list_response_def jsonify_def
      flask_response_def)

subsection \<open>Malformed input\<close>











subsection \<open>The Demo Service\<close>

lemma demo_app_create:
  "demo_app \<lparr>verb = POST, path = ''/items'', query = [(''item'', s)], form = f, json_body = b\<rparr>
     items = (\<lparr>status = 200, body = Json (JStr s)\<rparr>, items @ [s])"
  by (simp add: demo_app_def demo_route_def demo_match_def create_item_def)

lemma run_demo_creates:
  "run_demo
     (map (\<lambda>s. \<lparr>verb = POST, path = ''/items'', query = [(''item'', s)], form = [],
                json_body = None\<rparr>) ss) items =
     (map (\<lambda>s. \<lparr>status = 200, body = Json (JStr s)\<rparr>) ss, items @ ss)"
  by (induction ss arbitrary: items) (simp_all add: demo_app_create)

text \<open>
  Claim C7. For every string \<open>s\<close>, \<open>create_item\<close> returns \<open>s\<close>, and \<open>POST /items?item=s\<close>
  answers 200 with the JSON string \<open>s\<close> and appends \<open>s\<close> to the list. Starting from the
  empty list, \<open>N\<close> such calls leave a list of length exactly \<open>N\<close>; more generally the calls
  for the strings \<open>ss\<close> leave exactly \<open>ss\<close>.
\<close>

theorem create_item_returns_and_appends:
  "fst (create_item s items) = s \<and>
   demo_app \<lparr>verb = POST, path = ''/items'', query = [(''item'', s)], form = [],
             json_body = None\<rparr> items =
     (\<lparr>status = 200, body = Json (JStr s)\<rparr>, items @ [s]) \<and>
   length (snd (run_demo
      (replicate N \<lparr>verb = POST, path = ''/items'', query = [(''item'', s)], form = [],
                    json_body = None\<rparr>) [])) = N \<and>
   snd (run_demo
      (map (\<lambda>t. \<lparr>verb = POST, path = ''/items'', query = [(''item'', t)], form = [],
                 json_body = None\<rparr>) ss) []) = ss"
proof -
  have "replicate N \<lparr>verb = POST, path = ''/items'', query = [(''item'', s)], form = [],
                     json_body = None\<rparr> =
        map (\<lambda>t. \<lparr>verb = POST, path = ''/items'', query = [(''item'', t)], form = [],
                  json_body = None\<rparr>) (replicate N s)"
    by (simp add: map_replicate)
  then have "snd (run_demo
      (replicate N \<lparr>verb = POST, path = ''/items'', query = [(''item'', s)], form = [],
                    json_body = None\<rparr>) []) = replicate N s"
    by (simp only: run_demo_creates) simp
  then show ?thesis
    by (simp add: create_item_def demo_app_create run_demo_creates)
qed

text \<open>
  Claim C9. The view \<open>about\<close> returns the one-element set containing \<open>About Page\<close>, not a
  mapping, and the body of \<open>GET /about\<close> is the JSON array \<open>["About Page"]\<close>, whereas
  \<open>GET /\<close> answers with a JSON object.
\<close>

theorem about_returns_json_array:
  "about = PSet [PStr ''About Page''] \<and>
   demo_app \<lparr>verb = GET, path = ''/about'', query = q, form = f, json_body = b\<rparr> items =
     (\<lparr>status = 200, body = Json (JArr [JStr ''About Page''])\<rparr>, items) \<and>
   demo_app \<lparr>verb = GET, path = ''/'', query = q, form = f, json_body = b\<rparr> items =
     (\<lparr>status = 200, body = Json (JObj [(''hello'', JStr ''world'')])\<rparr>, items)"
  by (simp add: about_def root_def demo_app_def demo_route_def demo_match_def)

lemma demo_app_items:
  "snd (demo_app req items) = items @ created_items [req]"
  by (simp add: demo_app_def created_items_def create_item_def
      split: routed.splits demo_view.splits option.splits)

lemma created_items_Cons: "created_items (r # rs) = created_items [r] @ created_items rs"
  by (simp add: created_items_def)

lemma run_demo_items: "snd (run_demo reqs items) = items @ created_items reqs"
proof (induction reqs arbitrary: items)
  case Nil
  then show ?case by (simp add: created_items_def)
next
  case (Cons r rs)
  obtain resp items' where d: "demo_app r items = (resp, items')" by (cases "demo_app r items")
  then have "items' = items @ created_items [r]" using demo_app_items [of r items] by simp
  with Cons [of items'] d show ?case
    using created_items_Cons [of r rs] by (auto split: prod.splits)
qed

lemma created_items_single: "created_items [req] = [] \<or> (\<exists>s. created_items [req] = [s])"
  by (simp add: created_items_def split: routed.splits demo_view.splits option.splits)

text \<open>
  Claim C10. Every request to the Demo Service either leaves the items list unchanged or
  extends it by exactly one element at the end. After any sequence of requests the
  previous list is a prefix of the current one, and what follows it are the items of the
  create-item calls in the order they were handled.
\<close>

theorem items_list_is_append_only:
  "(snd (demo_app req items) = items \<or> (\<exists>s. snd (demo_app req items) = items @ [s])) \<and>
   prefix items (snd (run_demo reqs items)) \<and>
   snd (run_demo reqs items) = items @ created_items reqs"
  using created_items_single [of req]
  by (auto simp: demo_app_items run_demo_items)

end
